theory Spec2Isabelle
  imports Complex_Main "HOL-Library.Char_ord" "HOL-Library.List_Lexorder" "HOL-Library.AList"
begin

section \<open>The error dashboard: time-series bucketing and session classification\<close>

text \<open>
  The development embeds two routines of \<^verbatim>\<open>tools/error_dashboard.py\<close>:
  \<^verbatim>\<open>build_time_series\<close> (lines 34-100) and the body of the \<^verbatim>\<open>/api/errors\<close> handler
  \<^verbatim>\<open>get_errors\<close> (lines 1089-1231). Python dictionaries that hold records become HOL
  records, the \<^verbatim>\<open>defaultdict\<close> of buckets becomes an association list in insertion order,
  every \<^verbatim>\<open>try/except: pass\<close> becomes a branch that leaves the table as it is at the point
  where the exception is raised.
\<close>

subsection \<open>Dates and times\<close>

text \<open>
  A \<^verbatim>\<open>datetime\<close> object: its calendar fields and, for an aware object, the offset of its
  time zone from UTC in seconds.
\<close>

record datetime =
  year :: nat
  month :: nat
  day :: nat
  hour :: nat
  minute :: nat
  second :: nat
  microsecond :: nat
  utcoffset :: "int option"

text \<open>The decimal digit of a number below ten, and the zero-padded two-digit rendering
  that \<^verbatim>\<open>%H\<close>, \<^verbatim>\<open>%M\<close>, \<^verbatim>\<open>%m\<close> and \<^verbatim>\<open>%d\<close> produce.\<close>

definition digit_char :: "nat \<Rightarrow> char" where
  "digit_char n = ''0123456789'' ! n"

definition two_digits :: "nat \<Rightarrow> string" where
  "two_digits n = [digit_char (n div 10), digit_char (n mod 10)]"

text \<open>
  \<^verbatim>\<open>dt.strftime(fmt)\<close> for the directives the dashboard uses; every other character of
  the format is copied.
\<close>

fun strftime :: "datetime \<Rightarrow> string \<Rightarrow> string" where
  "strftime dt [] = []"
| "strftime dt [c] = [c]"
| "strftime dt (c # d # rest) =
     (if c = CHR ''%'' \<and> d = CHR ''H'' then two_digits (hour dt) @ strftime dt rest
      else if c = CHR ''%'' \<and> d = CHR ''M'' then two_digits (minute dt) @ strftime dt rest
      else if c = CHR ''%'' \<and> d = CHR ''m'' then two_digits (month dt) @ strftime dt rest
      else if c = CHR ''%'' \<and> d = CHR ''d'' then two_digits (day dt) @ strftime dt rest
      else c # strftime dt (d # rest))"

text \<open>\<^verbatim>\<open>ts.replace('Z', '+00:00')\<close>: every occurrence is replaced.\<close>

fun replace_Z :: "string \<Rightarrow> string" where
  "replace_Z [] = []"
| "replace_Z (c # cs) =
     (if c = CHR ''Z'' then ''+00:00'' @ replace_Z cs else c # replace_Z cs)"

subsection \<open>A model of \<^verbatim>\<open>datetime.fromisoformat\<close>\<close>

text \<open>
  \<^verbatim>\<open>datetime.fromisoformat\<close> belongs to the Python standard library, not to the
  repository, and the strings it accepts depend on the interpreter's version. The
  aggregator below therefore takes the parser as a parameter \<open>fromiso\<close>, where \<open>None\<close>
  stands for the \<^verbatim>\<open>ValueError\<close> the library raises, and the general theorems hold for
  every parser. The concrete inputs are evaluated with the following model, which accepts
  the strings of the grammar
  \<^verbatim>\<open>YYYY-MM-DD[*HH[:MM[:SS[.fff[fff]]]][(+|-)HH:MM[:SS]]]\<close>
  that every version of the library accepts and reads in the same way, and rejects all
  others.
\<close>

definition digit_val :: "char \<Rightarrow> nat option" where
  "digit_val c =
     map_of [(CHR ''0'', 0), (CHR ''1'', 1), (CHR ''2'', 2), (CHR ''3'', 3), (CHR ''4'', 4),
             (CHR ''5'', 5), (CHR ''6'', 6), (CHR ''7'', 7), (CHR ''8'', 8), (CHR ''9'', 9)] c"

text \<open>A non-empty string of decimal digits as a number, most significant digit first.\<close>

fun digits_acc :: "nat \<Rightarrow> string \<Rightarrow> nat option" where
  "digits_acc acc [] = Some acc"
| "digits_acc acc (c # cs) =
     (case digit_val c of None \<Rightarrow> None | Some v \<Rightarrow> digits_acc (10 * acc + v) cs)"

definition parse_digits :: "string \<Rightarrow> nat option" where
  "parse_digits s = (if s = [] then None else digits_acc 0 s)"

definition is_leap :: "nat \<Rightarrow> bool" where
  "is_leap y = (y mod 4 = 0 \<and> (y mod 100 \<noteq> 0 \<or> y mod 400 = 0))"

definition days_in_month :: "nat \<Rightarrow> nat \<Rightarrow> nat" where
  "days_in_month y m =
     (if m = 2 then (if is_leap y then 29 else 28)
      else if m = 4 \<or> m = 6 \<or> m = 9 \<or> m = 11 then 30 else 31)"

text \<open>\<^verbatim>\<open>YYYY-MM-DD\<close>, exactly ten characters, a date of the calendar.\<close>

definition parse_isoformat_date :: "string \<Rightarrow> (nat \<times> nat \<times> nat) option" where
  "parse_isoformat_date s =
     (if length s \<noteq> 10 \<or> s ! 4 \<noteq> CHR ''-'' \<or> s ! 7 \<noteq> CHR ''-'' then None
      else case (parse_digits (take 4 s), parse_digits (take 2 (drop 5 s)),
                 parse_digits (drop 8 s)) of
        (Some y, Some m, Some d) \<Rightarrow>
          (if 1 \<le> y \<and> 1 \<le> m \<and> m \<le> 12 \<and> 1 \<le> d \<and> d \<le> days_in_month y m
           then Some (y, m, d) else None)
      | _ \<Rightarrow> None)"

text \<open>
  \<^verbatim>\<open>HH[:MM[:SS[.fff[fff]]]]\<close> as hour, minute, second and microsecond, without the
  range checks.
\<close>

definition parse_fraction :: "string \<Rightarrow> nat option" where
  "parse_fraction s =
     (if s = [] then Some 0
      else if hd s \<noteq> CHR ''.'' then None
      else if length s = 4 then map_option (\<lambda>v. v * 1000) (parse_digits (tl s))
      else if length s = 7 then parse_digits (tl s)
      else None)"

definition parse_hh_mm_ss_ff :: "string \<Rightarrow> (nat \<times> nat \<times> nat \<times> nat) option" where
  "parse_hh_mm_ss_ff s =
     (case parse_digits (take 2 s) of None \<Rightarrow> None
      | Some h \<Rightarrow>
        (if length s < 2 then None
         else if length s = 2 then Some (h, 0, 0, 0)
         else if s ! 2 \<noteq> CHR '':'' \<or> length s < 5 then None
         else (case parse_digits (take 2 (drop 3 s)) of None \<Rightarrow> None
           | Some mi \<Rightarrow>
             (if length s = 5 then Some (h, mi, 0, 0)
              else if s ! 5 \<noteq> CHR '':'' \<or> length s < 8 then None
              else (case (parse_digits (take 2 (drop 6 s)), parse_fraction (drop 8 s)) of
                  (Some sec, Some us) \<Rightarrow> Some (h, mi, sec, us)
                | _ \<Rightarrow> None)))))"

text \<open>The position of the first sign character of the time part, if there is one.\<close>

fun find_sign :: "string \<Rightarrow> nat option" where
  "find_sign [] = None"
| "find_sign (c # cs) =
     (if c = CHR ''+'' \<or> c = CHR ''-'' then Some 0 else map_option Suc (find_sign cs))"

definition parse_tz :: "char \<Rightarrow> string \<Rightarrow> int option" where
  "parse_tz sign s =
     (if length s \<noteq> 5 \<and> length s \<noteq> 8 then None
      else (case parse_hh_mm_ss_ff s of None \<Rightarrow> None
        | Some (h, mi, sec, us) \<Rightarrow>
          (if 24 \<le> h \<or> 60 \<le> mi \<or> 60 \<le> sec then None
           else Some ((if sign = CHR ''-'' then - 1 else 1) * int (h * 3600 + mi * 60 + sec)))))"

definition naive_midnight :: "nat \<Rightarrow> nat \<Rightarrow> nat \<Rightarrow> datetime" where
  "naive_midnight y m d =
     \<lparr>year = y, month = m, day = d, hour = 0, minute = 0, second = 0, microsecond = 0,
      utcoffset = None\<rparr>"

definition parse_isoformat_time :: "string \<Rightarrow> (nat \<times> nat \<times> nat \<times> nat \<times> int option) option" where
  "parse_isoformat_time tstr =
     (let p = find_sign tstr;
          timestr = (case p of None \<Rightarrow> tstr | Some i \<Rightarrow> take i tstr);
          tz = (case p of None \<Rightarrow> Some None
                | Some i \<Rightarrow> map_option Some (parse_tz (tstr ! i) (drop (Suc i) tstr)))
      in (case (parse_hh_mm_ss_ff timestr, tz) of
            (Some (h, mi, sec, us), Some off) \<Rightarrow>
              (if h < 24 \<and> mi < 60 \<and> sec < 60 then Some (h, mi, sec, us, off) else None)
          | _ \<Rightarrow> None))"

definition fromisoformat :: "string \<Rightarrow> datetime option" where
  "fromisoformat s =
     (case parse_isoformat_date (take 10 s) of None \<Rightarrow> None
      | Some (y, m, d) \<Rightarrow>
        (if length s \<le> 10 then Some (naive_midnight y m d)
         else if length s = 11 then None
         else (case parse_isoformat_time (drop 11 s) of None \<Rightarrow> None
           | Some (h, mi, sec, us, off) \<Rightarrow>
               Some \<lparr>year = y, month = m, day = d, hour = h, minute = mi, second = sec,
                      microsecond = us, utcoffset = off\<rparr>)))"

subsection \<open>The data model\<close>

text \<open>
  An error event, as \<^verbatim>\<open>get_errors\<close> builds it (lines 1157-1199). Only the keys that
  the aggregation reads are kept; \<^verbatim>\<open>description\<close>, \<^verbatim>\<open>details\<close> and the other keys are
  display text that no computation reads.
\<close>

record ErrorEvent =
  etype :: string
  timestamp :: string
  sessionId :: string
  pairIndex :: int

text \<open>
  A row of the session statistics query (lines 1138-1144). For the token counts and the
  two session references a key that is absent or \<^verbatim>\<open>null\<close> is \<open>None\<close>; for
  \<^verbatim>\<open>currentExtension\<close>, \<open>None\<close> is the absent key, which the code reads as 1. \<open>s_id\<close>
  and \<open>s_updatedAt\<close> hold the value of \<^verbatim>\<open>s.get('id', '')\<close> and
  \<^verbatim>\<open>s.get('updatedAt', '')\<close>.
\<close>

record ExtensionInfo =
  currentExtension :: "int option"

record SessionStat =
  s_id :: string
  s_updatedAt :: string
  s_tokensIn :: "int option"
  s_tokensOut :: "int option"
  s_extensionInfo :: "ExtensionInfo option"
  s_parentSessionId :: "string option"
  s_handoffToSessionId :: "string option"

text \<open>
  A bucket of the \<^verbatim>\<open>defaultdict\<close>: the integer entries of the dictionary by key, and the
  set under the key \<^verbatim>\<open>'sessions'\<close> as a list without duplicates.
\<close>

record bucket =
  counts :: "string \<rightharpoonup> int"
  sessions :: "string list"

definition default_bucket :: bucket where
  "default_bucket =
     \<lparr>counts = [''bugs'' \<mapsto> 0, ''failures'' \<mapsto> 0, ''errors'' \<mapsto> 0,
                 ''tokensIn'' \<mapsto> 0, ''tokensOut'' \<mapsto> 0, ''totalSizeBytes'' \<mapsto> 0],
      sessions = []\<rparr>"

type_synonym time_buckets = "(string \<times> bucket) list"

text \<open>One emitted summary (lines 89-98). The two averages are Python floats; the model
  computes them as exact rationals.\<close>

record summary =
  period :: string
  bugs :: int
  failures :: int
  errors :: int
  avgPerSession :: rat
  tokensIn :: int
  tokensOut :: int
  avgSessionSizeKB :: rat

subsection \<open>\<^verbatim>\<open>build_time_series\<close>\<close>

definition bucket_format_of :: "string \<Rightarrow> string" where
  "bucket_format_of time_range =
     (if time_range = ''hour'' then ''%H:%M''
      else if time_range = ''day'' then ''%H:00''
      else if time_range = ''week'' then ''%m/%d''
      else ''%m/%d'')"

text \<open>\<^verbatim>\<open>data.get(k, 0)\<close> on the integer entries of a bucket.\<close>

definition get0 :: "bucket \<Rightarrow> string \<Rightarrow> int" where
  "get0 data k = (case counts data k of None \<Rightarrow> 0 | Some v \<Rightarrow> v)"

text \<open>
  \<^verbatim>\<open>time_buckets[bucket_key]\<close>: reading a key that is not in the \<^verbatim>\<open>defaultdict\<close> stores
  the default bucket under it first.
\<close>

definition touch :: "time_buckets \<Rightarrow> string \<Rightarrow> time_buckets" where
  "touch tb k = (case map_of tb k of None \<Rightarrow> tb @ [(k, default_bucket)] | Some b \<Rightarrow> tb)"

definition bucket_at :: "time_buckets \<Rightarrow> string \<Rightarrow> bucket" where
  "bucket_at tb k = (case map_of tb k of None \<Rightarrow> default_bucket | Some b \<Rightarrow> b)"

text \<open>
  The timestamp of a record as the loops read it: an empty (or absent) string is
  skipped by \<^verbatim>\<open>continue\<close>, a string that \<^verbatim>\<open>fromisoformat\<close> rejects raises inside the
  \<^verbatim>\<open>try\<close>.
\<close>

definition parse_ts :: "(string \<Rightarrow> datetime option) \<Rightarrow> string \<Rightarrow> datetime option" where
  "parse_ts fromiso ts = (if ts = [] then None else fromiso (replace_Z ts))"

text \<open>
  The body of the first loop (lines 54-64). The right-hand side of the assignment is
  evaluated first: it creates the bucket, and under the key \<^verbatim>\<open>'sessions'\<close> it adds 1 to
  a set, a \<^verbatim>\<open>TypeError\<close> that the bare \<^verbatim>\<open>except\<close> swallows with the bucket created and
  nothing counted.
\<close>

definition add_error ::
  "(string \<Rightarrow> datetime option) \<Rightarrow> string \<Rightarrow> time_buckets \<Rightarrow> ErrorEvent \<Rightarrow> time_buckets" where
  "add_error fromiso bucket_format tb e =
     (case parse_ts fromiso (timestamp e) of
        None \<Rightarrow> tb
      | Some dt \<Rightarrow>
          (let bucket_key = strftime dt bucket_format;
               tb1 = touch tb bucket_key;
               data = bucket_at tb1 bucket_key;
               k = etype e @ ''s''
           in if k = ''sessions'' then tb1
              else AList.update bucket_key
                     (data\<lparr>counts := (counts data)(k \<mapsto> get0 data k + 1),
                           sessions := List.insert (sessionId e) (sessions data)\<rparr>) tb1))"

text \<open>\<^verbatim>\<open>s.get('tokensIn', 0) or 0\<close>.\<close>

definition or0 :: "int option \<Rightarrow> int" where
  "or0 v = (case v of None \<Rightarrow> 0 | Some n \<Rightarrow> n)"

text \<open>
  The body of the second loop (lines 68-82). The three keys it adds to are in every
  bucket from its creation, so the augmented assignments find them.
\<close>

definition add_session ::
  "(string \<Rightarrow> datetime option) \<Rightarrow> string \<Rightarrow> time_buckets \<Rightarrow> SessionStat \<Rightarrow> time_buckets" where
  "add_session fromiso bucket_format tb s =
     (case parse_ts fromiso (s_updatedAt s) of
        None \<Rightarrow> tb
      | Some dt \<Rightarrow>
          (let bucket_key = strftime dt bucket_format;
               tb1 = touch tb bucket_key;
               data = bucket_at tb1 bucket_key;
               estimated_size = (or0 (s_tokensIn s) + or0 (s_tokensOut s)) * 4;
               c1 = (counts data)(''tokensIn'' \<mapsto> get0 data ''tokensIn'' + or0 (s_tokensIn s));
               c2 = c1(''tokensOut'' \<mapsto> get0 data ''tokensOut'' + or0 (s_tokensOut s));
               c3 = c2(''totalSizeBytes'' \<mapsto> get0 data ''totalSizeBytes'' + estimated_size)
           in AList.update bucket_key
                (data\<lparr>counts := c3, sessions := List.insert (s_id s) (sessions data)\<rparr>) tb1))"

text \<open>
  Python's \<^verbatim>\<open>round(x, n)\<close> on the exact value: to the nearest multiple of \<open>10\<^sup>-\<^sup>n\<close>, a tie
  to the even one.
\<close>

definition py_round :: "rat \<Rightarrow> nat \<Rightarrow> rat" where
  "py_round x n =
     (let s = x * 10 ^ n; f = \<lfloor>s\<rfloor>; d = s - of_int f
      in of_int (if d < 1 / 2 then f else if 1 / 2 < d then f + 1
                 else if even f then f else f + 1) / 10 ^ n)"

text \<open>\<^verbatim>\<open>len(data['sessions']) or 1\<close>.\<close>

definition session_count_of :: "bucket \<Rightarrow> nat" where
  "session_count_of data = (if length (sessions data) = 0 then 1 else length (sessions data))"

definition total_errors_of :: "bucket \<Rightarrow> int" where
  "total_errors_of data = get0 data ''bugs'' + get0 data ''failures'' + get0 data ''errors''"

text \<open>The body of the last loop (lines 87-98).\<close>

definition summarise :: "string \<times> bucket \<Rightarrow> summary" where
  "summarise pd =
     (let data = snd pd; session_count = session_count_of data;
          total_errors = total_errors_of data
      in \<lparr>period = fst pd,
          bugs = get0 data ''bugs'',
          failures = get0 data ''failures'',
          errors = get0 data ''errors'',
          avgPerSession = py_round (of_int total_errors / of_nat session_count) 2,
          tokensIn = get0 data ''tokensIn'',
          tokensOut = get0 data ''tokensOut'',
          avgSessionSizeKB =
            py_round (of_int (get0 data ''totalSizeBytes'') / of_nat session_count / 1024) 1\<rparr>)"

text \<open>
  The table of buckets after the two loops. An empty \<^verbatim>\<open>session_stats\<close> (or \<^verbatim>\<open>None\<close>)
  skips the second loop, which on an empty list does nothing anyway.
\<close>

definition collect_buckets ::
  "(string \<Rightarrow> datetime option) \<Rightarrow> ErrorEvent list \<Rightarrow> string \<Rightarrow> SessionStat list \<Rightarrow> time_buckets" where
  "collect_buckets fromiso errs time_range session_stats =
     (let bucket_format = bucket_format_of time_range;
          tb = foldl (add_error fromiso bucket_format) [] errs
      in foldl (add_session fromiso bucket_format) tb session_stats)"

text \<open>\<^verbatim>\<open>sorted(time_buckets.items())\<close> orders the pairs by their keys, which are distinct.\<close>

definition build_time_series ::
  "(string \<Rightarrow> datetime option) \<Rightarrow> ErrorEvent list \<Rightarrow> string \<Rightarrow> nat \<Rightarrow> SessionStat list
     \<Rightarrow> summary list" where
  "build_time_series fromiso errs time_range total_sessions session_stats =
     map summarise (sort_key fst (collect_buckets fromiso errs time_range session_stats))"

subsection \<open>The \<^verbatim>\<open>/api/errors\<close> handler\<close>

text \<open>\<^verbatim>\<open>timedelta(hours=h)\<close> and \<^verbatim>\<open>timedelta(days=d)\<close>, subtracted from a date one unit
  at a time.\<close>

definition prev_day :: "datetime \<Rightarrow> datetime" where
  "prev_day dt =
     (if 1 < day dt then dt\<lparr>day := day dt - 1\<rparr>
      else if 1 < month dt
        then dt\<lparr>month := month dt - 1, day := days_in_month (year dt) (month dt - 1)\<rparr>
      else dt\<lparr>year := year dt - 1, month := 12, day := 31\<rparr>)"

definition prev_hour :: "datetime \<Rightarrow> datetime" where
  "prev_hour dt =
     (if 0 < hour dt then dt\<lparr>hour := hour dt - 1\<rparr> else (prev_day dt)\<lparr>hour := 23\<rparr>)"

fun minus_hours :: "datetime \<Rightarrow> nat \<Rightarrow> datetime" where
  "minus_hours dt 0 = dt"
| "minus_hours dt (Suc n) = minus_hours (prev_hour dt) n"

fun minus_days :: "datetime \<Rightarrow> nat \<Rightarrow> datetime" where
  "minus_days dt 0 = dt"
| "minus_days dt (Suc n) = minus_days (prev_day dt) n"

text \<open>Lines 1092-1102: the start of the queried interval.\<close>

definition query_start :: "datetime \<Rightarrow> string \<Rightarrow> datetime" where
  "query_start now time_range =
     (if time_range = ''hour'' then minus_hours now 1
      else if time_range = ''day'' then minus_days now 1
      else if time_range = ''week'' then minus_days now 7
      else if time_range = ''month'' then minus_days now 30
      else naive_midnight 2020 1 1)"

text \<open>\<^verbatim>\<open>isoformat()\<close> of a naive \<^verbatim>\<open>datetime\<close>, as \<^verbatim>\<open>utcnow()\<close> and the constructor return.\<close>

definition four_digits :: "nat \<Rightarrow> string" where
  "four_digits n = two_digits (n div 100) @ two_digits (n mod 100)"

definition six_digits :: "nat \<Rightarrow> string" where
  "six_digits n = two_digits (n div 10000) @ four_digits (n mod 10000)"

definition isoformat :: "datetime \<Rightarrow> string" where
  "isoformat dt =
     four_digits (year dt) @ ''-'' @ two_digits (month dt) @ ''-'' @ two_digits (day dt) @
     ''T'' @ two_digits (hour dt) @ '':'' @ two_digits (minute dt) @ '':'' @
     two_digits (second dt) @
     (if microsecond dt = 0 then [] else ''.'' @ six_digits (microsecond dt))"

definition start_str_of :: "datetime \<Rightarrow> string \<Rightarrow> string" where
  "start_str_of now time_range = isoformat (query_start now time_range) @ ''Z''"

text \<open>
  A result row of one of the four error queries, with the columns the handler copies
  into an event, and the document store as the five queries, each a function of the
  interpolated \<^verbatim>\<open>start_str\<close>. \<^verbatim>\<open>query_couchbase\<close> returns the empty list on any failure,
  so each query always yields a list.
\<close>

record row =
  row_sessionId :: "string option"
  row_timestamp :: "string option"
  row_pairIndex :: "int option"

record database =
  bugs_query :: "string \<Rightarrow> row list"
  failures_query :: "string \<Rightarrow> row list"
  pair_errors_query :: "string \<Rightarrow> row list"
  cli_failures_query :: "string \<Rightarrow> row list"
  session_stats_query :: "string \<Rightarrow> SessionStat list"

text \<open>\<^verbatim>\<open>b.get(k, '')\<close>.\<close>

definition get_str :: "string option \<Rightarrow> string" where
  "get_str v = (case v of None \<Rightarrow> [] | Some x \<Rightarrow> x)"

definition make_event :: "string \<Rightarrow> row \<Rightarrow> ErrorEvent" where
  "make_event t b =
     \<lparr>etype = t, timestamp = get_str (row_timestamp b),
      sessionId = get_str (row_sessionId b), pairIndex = or0 (row_pairIndex b)\<rparr>"

text \<open>One of the four loops of lines 1155-1199, over the rows of one query.\<close>

definition append_rows ::
  "string \<Rightarrow> string list \<times> ErrorEvent list \<Rightarrow> row list \<Rightarrow> string list \<times> ErrorEvent list" where
  "append_rows t acc rows =
     foldl (\<lambda>st b. (List.insert (get_str (row_sessionId b)) (fst st),
                     snd st @ [make_event t b])) acc rows"

text \<open>\<^verbatim>\<open>all_errors.sort(key=lambda x: x['timestamp'], reverse=True)\<close>: a stable sort that
  keeps the order of events with equal timestamps.\<close>

definition sort_reverse :: "ErrorEvent list \<Rightarrow> ErrorEvent list" where
  "sort_reverse es = rev (sort_key timestamp (rev es))"

record session_types =
  single :: nat
  extended :: nat
  handoff :: nat

text \<open>Truth of an optional string: absent, \<^verbatim>\<open>null\<close> and the empty string are false.\<close>

definition truthy :: "string option \<Rightarrow> bool" where
  "truthy v = (case v of None \<Rightarrow> False | Some x \<Rightarrow> x \<noteq> [])"

text \<open>
  The body of the loop of lines 1213-1223. An \<^verbatim>\<open>extensionInfo\<close> without the key
  \<^verbatim>\<open>currentExtension\<close> reads as 1, so an empty dictionary takes the same branch whether
  it counts as true or not.
\<close>

definition classify_step ::
  "session_types \<times> (string \<rightharpoonup> string) \<Rightarrow> SessionStat \<Rightarrow> session_types \<times> (string \<rightharpoonup> string)" where
  "classify_step acc s =
     (let types = fst acc; session_type_map = snd acc; sid = s_id s
      in if (case s_extensionInfo s of None \<Rightarrow> False
             | Some ei \<Rightarrow> 1 < (case currentExtension ei of None \<Rightarrow> 1 | Some n \<Rightarrow> n))
         then (types\<lparr>extended := extended types + 1\<rparr>, session_type_map(sid \<mapsto> ''extended''))
         else if truthy (s_parentSessionId s) \<or> truthy (s_handoffToSessionId s)
         then (types\<lparr>handoff := handoff types + 1\<rparr>, session_type_map(sid \<mapsto> ''handoff''))
         else (types\<lparr>single := single types + 1\<rparr>, session_type_map(sid \<mapsto> ''single'')))"

definition classify_sessions :: "SessionStat list \<Rightarrow> session_types \<times> (string \<rightharpoonup> string)" where
  "classify_sessions session_stats =
     foldl classify_step (\<lparr>single = 0, extended = 0, handoff = 0\<rparr>, Map.empty) session_stats"

record stats =
  n_bugs :: nat
  n_failures :: nat
  n_errors :: nat
  n_cli :: nat
  uniqueSessions :: nat

record response =
  r_stats :: stats
  r_errors :: "ErrorEvent list"
  r_timeSeries :: "summary list"
  r_sessionTypes :: session_types
  r_sessionTypeMap :: "string \<rightharpoonup> string"

text \<open>The list \<^verbatim>\<open>all_errors\<close> and the set \<^verbatim>\<open>session_ids\<close> after the four loops.\<close>

definition gather ::
  "row list \<Rightarrow> row list \<Rightarrow> row list \<Rightarrow> row list \<Rightarrow> string list \<times> ErrorEvent list" where
  "gather bugs_rows failures_rows pair_errors_rows cli_failures_rows =
     append_rows ''cli''
       (append_rows ''error''
          (append_rows ''failure'' (append_rows ''bug'' ([], []) bugs_rows) failures_rows)
          pair_errors_rows)
       cli_failures_rows"

definition get_errors ::
  "(string \<Rightarrow> datetime option) \<Rightarrow> database \<Rightarrow> datetime \<Rightarrow> string \<Rightarrow> response" where
  "get_errors fromiso db now time_range =
     (let start_str = start_str_of now time_range;
          bugs_rows = bugs_query db start_str;
          failures_rows = failures_query db start_str;
          pair_errors_rows = pair_errors_query db start_str;
          cli_failures_rows = cli_failures_query db start_str;
          session_stats = session_stats_query db start_str;
          acc = gather bugs_rows failures_rows pair_errors_rows cli_failures_rows;
          session_ids = fst acc;
          all_errors = sort_reverse (snd acc);
          time_series =
            build_time_series fromiso all_errors time_range (length session_ids) session_stats;
          cls = classify_sessions session_stats
      in \<lparr>r_stats = \<lparr>n_bugs = length bugs_rows, n_failures = length failures_rows,
                      n_errors = length pair_errors_rows, n_cli = length cli_failures_rows,
                      uniqueSessions = length session_ids\<rparr>,
          r_errors = all_errors,
          r_timeSeries = time_series,
          r_sessionTypes = fst cls,
          r_sessionTypeMap = snd cls\<rparr>)"

subsection \<open>Vocabulary of the properties\<close>

text \<open>The four types of event that the handler produces.\<close>

definition event_types :: "string list" where
  "event_types = [''bug'', ''failure'', ''error'', ''cli'']"

text \<open>The label of the bucket that a timestamp falls into, if the timestamp parses.\<close>

definition label_of :: "(string \<Rightarrow> datetime option) \<Rightarrow> string \<Rightarrow> string \<Rightarrow> string option" where
  "label_of fromiso bucket_format ts =
     map_option (\<lambda>dt. strftime dt bucket_format) (parse_ts fromiso ts)"

text \<open>An event of type \<open>t\<close> whose timestamp parses and formats to \<open>label\<close>.\<close>

definition hits ::
  "(string \<Rightarrow> datetime option) \<Rightarrow> string \<Rightarrow> string \<Rightarrow> string \<Rightarrow> ErrorEvent \<Rightarrow> bool" where
  "hits fromiso bucket_format label t e =
     (etype e = t \<and> label_of fromiso bucket_format (timestamp e) = Some label)"

text \<open>The counter under key \<open>k\<close> of the bucket labelled \<open>label\<close>; 0 if there is no such
  bucket.\<close>

definition count_in :: "time_buckets \<Rightarrow> string \<Rightarrow> string \<Rightarrow> int" where
  "count_in tb label k = get0 (bucket_at tb label) k"










text \<open>The category that the priority chain of the classifier gives a session.\<close>

definition category_of :: "SessionStat \<Rightarrow> string" where
  "category_of s =
     (if (case s_extensionInfo s of None \<Rightarrow> False
          | Some ei \<Rightarrow> (case currentExtension ei of None \<Rightarrow> False | Some n \<Rightarrow> 1 < n))
        then ''extended''
      else if (case s_parentSessionId s of None \<Rightarrow> False | Some p \<Rightarrow> p \<noteq> []) \<or>
              (case s_handoffToSessionId s of None \<Rightarrow> False | Some h \<Rightarrow> h \<noteq> [])
        then ''handoff''
      else ''single'')"




text \<open>One more session of category \<open>c\<close> in the three counters.\<close>

definition bump :: "string \<Rightarrow> session_types \<Rightarrow> session_types" where
  "bump c types =
     (if c = ''extended'' then types\<lparr>extended := extended types + 1\<rparr>
      else if c = ''handoff'' then types\<lparr>handoff := handoff types + 1\<rparr>
      else types\<lparr>single := single types + 1\<rparr>)"


section \<open>Evaluation\<close>

lemmas fromisoformat_eval =
  fromisoformat_def parse_isoformat_date_def parse_isoformat_time_def parse_digits_def
  digit_val_def parse_hh_mm_ss_ff_def parse_tz_def parse_fraction_def days_in_month_def
  is_leap_def naive_midnight_def

lemmas build_time_series_eval =
  build_time_series_def collect_buckets_def add_error_def add_session_def bucket_format_of_def
  parse_ts_def touch_def bucket_at_def get0_def default_bucket_def summarise_def py_round_def
  session_count_of_def total_errors_of_def two_digits_def digit_char_def or0_def Let_def



section \<open>The table of buckets\<close>

lemma map_of_touch:
  "map_of (touch tb k) k' = (if k' = k \<and> map_of tb k = None then Some default_bucket else map_of tb k')"
  by (auto simp: touch_def map_add_def split: option.splits)

lemma bucket_at_touch [simp]: "bucket_at (touch tb k) k' = bucket_at tb k'"
  by (auto simp: bucket_at_def map_of_touch split: option.splits)

lemma bucket_at_update [simp]:
  "bucket_at (AList.update k b tb) k' = (if k' = k then b else bucket_at tb k')"
  by (simp add: bucket_at_def update_conv')

lemma distinct_touch: "distinct (map fst tb) \<Longrightarrow> distinct (map fst (touch tb k))"
  by (auto simp: touch_def map_of_eq_None_iff split: option.splits)

lemma distinct_add_error:
  "distinct (map fst tb) \<Longrightarrow> distinct (map fst (add_error fromiso fmt tb e))"
  by (auto simp: add_error_def Let_def distinct_touch distinct_update split: option.splits)

lemma distinct_add_session:
  "distinct (map fst tb) \<Longrightarrow> distinct (map fst (add_session fromiso fmt tb s))"
  by (auto simp: add_session_def Let_def distinct_touch distinct_update split: option.splits)

lemma distinct_foldl_add_error:
  "distinct (map fst tb) \<Longrightarrow> distinct (map fst (foldl (add_error fromiso fmt) tb es))"
  by (induction es arbitrary: tb) (simp_all add: distinct_add_error)

lemma distinct_foldl_add_session:
  "distinct (map fst tb) \<Longrightarrow> distinct (map fst (foldl (add_session fromiso fmt) tb ss))"
  by (induction ss arbitrary: tb) (simp_all add: distinct_add_session)

lemma distinct_collect_buckets: "distinct (map fst (collect_buckets fromiso errs r ss))"
  by (simp add: collect_buckets_def Let_def distinct_foldl_add_session distinct_foldl_add_error)

lemma period_summarise [simp]: "period (summarise pd) = fst pd"
  by (simp add: summarise_def Let_def)




lemma count_in_add_error:
  "t @ ''s'' \<noteq> ''sessions'' \<Longrightarrow>
   count_in (add_error fromiso fmt tb e) L (t @ ''s'') =
   count_in tb L (t @ ''s'') + (if hits fromiso fmt L t e then 1 else 0)"
  by (auto simp: add_error_def count_in_def hits_def label_of_def Let_def get0_def split: option.splits)

lemma count_in_add_session:
  "k \<notin> {''tokensIn'', ''tokensOut'', ''totalSizeBytes''} \<Longrightarrow>
   count_in (add_session fromiso fmt tb s) L k = count_in tb L k"
  by (auto simp: add_session_def count_in_def Let_def get0_def split: option.splits)

lemma count_in_foldl_add_error:
  "t @ ''s'' \<noteq> ''sessions'' \<Longrightarrow>
   count_in (foldl (add_error fromiso fmt) tb es) L (t @ ''s'') =
   count_in tb L (t @ ''s'') + int (length (filter (hits fromiso fmt L t) es))"
  by (induction es arbitrary: tb) (simp_all add: count_in_add_error)

lemma count_in_foldl_add_session:
  "k \<notin> {''tokensIn'', ''tokensOut'', ''totalSizeBytes''} \<Longrightarrow>
   count_in (foldl (add_session fromiso fmt) tb ss) L k = count_in tb L k"
  by (induction ss arbitrary: tb) (simp_all add: count_in_add_session)

lemma count_in_collect_buckets:
  assumes "t \<in> set event_types"
  shows "count_in (collect_buckets fromiso errs r ss) L (t @ ''s'') =
         int (length (filter (hits fromiso (bucket_format_of r) L t) errs))"
proof -
  from assms have k: "t @ ''s'' \<noteq> ''sessions''"
      "t @ ''s'' \<notin> {''tokensIn'', ''tokensOut'', ''totalSizeBytes''}"
    by (auto simp: event_types_def)
  have "count_in [] L (t @ ''s'') = 0"
    using assms by (auto simp: count_in_def bucket_at_def get0_def default_bucket_def event_types_def)
  then show ?thesis
    by (simp add: collect_buckets_def Let_def count_in_foldl_add_session [OF k(2)]
        count_in_foldl_add_error [OF k(1)])
qed


section \<open>Every event is counted in exactly one bucket\<close>



section \<open>The documented example\<close>

text \<open>
  Claim C5. Two bug events, at 2024-01-01T10:15:00Z in session A and at
  2024-01-01T10:45:00Z in session B, with range \<^verbatim>\<open>hour\<close>, any session count and no session
  statistics: the aggregator returns exactly two buckets, labelled 10:15 and 10:45, each
  with \<open>bugs = 1\<close> and \<open>avgPerSession = 1.0\<close>.
\<close>

theorem two_bugs_in_one_hour:
  "build_time_series fromisoformat
     [\<lparr>etype = ''bug'', timestamp = ''2024-01-01T10:15:00Z'', sessionId = ''A'', pairIndex = 0\<rparr>,
      \<lparr>etype = ''bug'', timestamp = ''2024-01-01T10:45:00Z'', sessionId = ''B'', pairIndex = 0\<rparr>]
     ''hour'' total_sessions [] =
   [\<lparr>period = ''10:15'', bugs = 1, failures = 0, errors = 0, avgPerSession = 1,
     tokensIn = 0, tokensOut = 0, avgSessionSizeKB = 0\<rparr>,
    \<lparr>period = ''10:45'', bugs = 1, failures = 0, errors = 0, avgPerSession = 1,
     tokensIn = 0, tokensOut = 0, avgSessionSizeKB = 0\<rparr>]"
  by (simp add: build_time_series_eval fromisoformat_eval)

section \<open>Labels and instants\<close>


























section \<open>The order of the emitted buckets\<close>





section \<open>The averages of a bucket\<close>













lemma summary_of_bucket:
  assumes "r \<in> set (build_time_series fromiso errs time_range n ss)"
  shows "\<exists>data. (period r, data) \<in> set (collect_buckets fromiso errs time_range ss) \<and>
                 r = summarise (period r, data)"
proof -
  from assms obtain pd where pd: "pd \<in> set (collect_buckets fromiso errs time_range ss)"
    and r: "r = summarise pd"
    by (auto simp: build_time_series_def)
  obtain p data where "pd = (p, data)"
    by (cases pd)
  with pd r show ?thesis
    by (intro exI [of _ data]) simp
qed




section \<open>The counts of a summary\<close>

lemma bucket_at_member:
  assumes "distinct (map fst tb)" and "(k, data) \<in> set tb"
  shows "bucket_at tb k = data"
  using assms by (simp add: bucket_at_def)

lemma summarised_counts:
  assumes "r \<in> set (build_time_series fromiso errs time_range n ss)"
  shows "bugs r = count_in (collect_buckets fromiso errs time_range ss) (period r) ''bugs'' \<and>
         failures r = count_in (collect_buckets fromiso errs time_range ss) (period r) ''failures'' \<and>
         errors r = count_in (collect_buckets fromiso errs time_range ss) (period r) ''errors''"
proof -
  from summary_of_bucket [OF assms] obtain data
    where mem: "(period r, data) \<in> set (collect_buckets fromiso errs time_range ss)"
      and r: "r = summarise (period r, data)"
    by blast
  have at: "bucket_at (collect_buckets fromiso errs time_range ss) (period r) = data"
    using distinct_collect_buckets mem by (rule bucket_at_member)
  have "bugs r = get0 data ''bugs''" "failures r = get0 data ''failures''"
    "errors r = get0 data ''errors''"
    by (subst r, simp add: summarise_def Let_def)+
  then show ?thesis
    by (simp add: count_in_def at)
qed


text \<open>
  Claim C6 says that every summary carries the raw count of each of the four types
  counted into its bucket, the type \<^verbatim>\<open>cli\<close> among them. It fails for \<^verbatim>\<open>cli\<close>: the loop
  counts such an event under the key \<^verbatim>\<open>'clis'\<close> of its bucket, and the summary is built
  from the keys \<^verbatim>\<open>'bugs'\<close>, \<^verbatim>\<open>'failures'\<close> and \<^verbatim>\<open>'errors'\<close> only. For a single \<^verbatim>\<open>cli\<close>
  event the bucket holds the count 1 and every count of the emitted summary is 0.
\<close>

theorem cli_count_not_emitted:
  "build_time_series fromisoformat
     [\<lparr>etype = ''cli'', timestamp = ''2024-01-01T10:15:00Z'', sessionId = ''A'', pairIndex = 0\<rparr>]
     ''hour'' 1 [] =
   [\<lparr>period = ''10:15'', bugs = 0, failures = 0, errors = 0, avgPerSession = 0,
     tokensIn = 0, tokensOut = 0, avgSessionSizeKB = 0\<rparr>] \<and>
   count_in (collect_buckets fromisoformat
     [\<lparr>etype = ''cli'', timestamp = ''2024-01-01T10:15:00Z'', sessionId = ''A'', pairIndex = 0\<rparr>]
     ''hour'' []) ''10:15'' ''clis'' = 1"
  by (simp add: build_time_series_eval fromisoformat_eval count_in_def)


text \<open>
  Claim C6 as amended. Every emitted summary carries the raw count of the types
  \<^verbatim>\<open>bug\<close>, \<^verbatim>\<open>failure\<close> and \<^verbatim>\<open>error\<close> counted into its bucket: the number of events of that
  type whose timestamp formats to the label of the summary. An event of type \<^verbatim>\<open>cli\<close> is
  counted in its bucket under the key \<^verbatim>\<open>'clis'\<close>, which the summary does not carry.
\<close>

theorem summary_counts_bugs_failures_errors:
  assumes "r \<in> set (build_time_series fromiso errs time_range n session_stats)"
  shows "bugs r = int (length (filter (hits fromiso (bucket_format_of time_range) (period r) ''bug'') errs)) \<and>
         failures r = int (length (filter (hits fromiso (bucket_format_of time_range) (period r) ''failure'') errs)) \<and>
         errors r = int (length (filter (hits fromiso (bucket_format_of time_range) (period r) ''error'') errs)) \<and>
         count_in (collect_buckets fromiso errs time_range session_stats) (period r) ''clis'' =
           int (length (filter (hits fromiso (bucket_format_of time_range) (period r) ''cli'') errs))"
  using summarised_counts [OF assms]
    count_in_collect_buckets [of "''bug''" fromiso errs time_range session_stats "period r"]
    count_in_collect_buckets [of "''failure''" fromiso errs time_range session_stats "period r"]
    count_in_collect_buckets [of "''error''" fromiso errs time_range session_stats "period r"]
    count_in_collect_buckets [of "''cli''" fromiso errs time_range session_stats "period r"]
  by (simp add: event_types_def)


theorem summary_counts_bugs_failures_errors_witness:
  "\<lparr>period = ''10:15'', bugs = 1, failures = 0, errors = 0, avgPerSession = 1,
     tokensIn = 0, tokensOut = 0, avgSessionSizeKB = 0\<rparr>
   \<in> set (build_time_series fromisoformat
       [\<lparr>etype = ''bug'', timestamp = ''2024-01-01T10:15:00Z'', sessionId = ''A'', pairIndex = 0\<rparr>,
        \<lparr>etype = ''cli'', timestamp = ''2024-01-01T10:15:30Z'', sessionId = ''A'', pairIndex = 1\<rparr>]
       ''hour'' 1 []) \<and>
   int (length (filter (hits fromisoformat (bucket_format_of ''hour'') ''10:15'' ''bug'')
       [\<lparr>etype = ''bug'', timestamp = ''2024-01-01T10:15:00Z'', sessionId = ''A'', pairIndex = 0\<rparr>,
        \<lparr>etype = ''cli'', timestamp = ''2024-01-01T10:15:30Z'', sessionId = ''A'', pairIndex = 1\<rparr>])) = 1 \<and>
   count_in (collect_buckets fromisoformat
       [\<lparr>etype = ''bug'', timestamp = ''2024-01-01T10:15:00Z'', sessionId = ''A'', pairIndex = 0\<rparr>,
        \<lparr>etype = ''cli'', timestamp = ''2024-01-01T10:15:30Z'', sessionId = ''A'', pairIndex = 1\<rparr>]
       ''hour'' []) ''10:15'' ''clis'' = 1"
proof -
  let ?errs =
    "[\<lparr>etype = ''bug'', timestamp = ''2024-01-01T10:15:00Z'', sessionId = ''A'', pairIndex = 0\<rparr>,
      \<lparr>etype = ''cli'', timestamp = ''2024-01-01T10:15:30Z'', sessionId = ''A'', pairIndex = 1\<rparr>]"
  let ?r = "\<lparr>period = ''10:15'', bugs = 1, failures = 0, errors = 0, avgPerSession = 1,
     tokensIn = 0, tokensOut = 0, avgSessionSizeKB = 0\<rparr>"
  have mem: "?r \<in> set (build_time_series fromisoformat ?errs ''hour'' 1 [])"
    by (simp add: build_time_series_eval fromisoformat_eval)
  have c: "int (length (filter (hits fromisoformat (bucket_format_of ''hour'') ''10:15'' ''cli'')
      ?errs)) = 1"
    by (simp add: hits_def label_of_def parse_ts_def bucket_format_of_def two_digits_def
        digit_char_def fromisoformat_eval)
  from summary_counts_bugs_failures_errors [OF mem] mem c show ?thesis
    by simp
qed

section \<open>Records without a usable timestamp\<close>













section \<open>The session classifier\<close>

lemma classify_step_category:
  "classify_step (types, m) s = (bump (category_of s) types, m(s_id s \<mapsto> category_of s))"
  by (auto simp: classify_step_def category_of_def bump_def truthy_def Let_def
      split: option.splits)

lemma snd_foldl_classify_step:
  "snd (foldl classify_step acc ss) =
   foldl (\<lambda>m s. m(s_id s \<mapsto> category_of s)) (snd acc) ss"
proof (induction ss arbitrary: acc)
  case Nil
  then show ?case by simp
next
  case (Cons s ss)
  obtain types m where acc: "acc = (types, m)" by (cases acc)
  show ?case
    by (simp add: acc classify_step_category Cons.IH)
qed

lemma foldl_map_upd_other:
  "k \<notin> s_id ` set ss \<Longrightarrow>
   foldl (\<lambda>m s. m(s_id s \<mapsto> category_of s)) m ss k = m k"
  by (induction ss arbitrary: m) auto

lemma category_of_cases:
  "category_of s = ''extended'' \<or> category_of s = ''handoff'' \<or> category_of s = ''single''"
  by (simp add: category_of_def)

lemma total_bump: "single (bump c t) + extended (bump c t) + handoff (bump c t) =
   Suc (single t + extended t + handoff t)"
  by (simp add: bump_def)

lemma total_foldl_classify_step:
  "single (fst (foldl classify_step acc ss)) + extended (fst (foldl classify_step acc ss)) +
   handoff (fst (foldl classify_step acc ss)) =
   single (fst acc) + extended (fst acc) + handoff (fst acc) + length ss"
proof (induction ss arbitrary: acc)
  case Nil
  then show ?case by simp
next
  case (Cons s ss)
  obtain types m where acc: "acc = (types, m)" by (cases acc)
  show ?case
    by (simp add: acc classify_step_category Cons.IH total_bump)
qed


text \<open>
  Claim C2. The classifier gives a session exactly one of the three categories, by the
  priority chain \<open>category_of\<close>: \<^verbatim>\<open>extended\<close> if its extension info has
  \<^verbatim>\<open>currentExtension > 1\<close>, else \<^verbatim>\<open>handoff\<close> if it has a non-empty parent or hand-off
  reference, else \<^verbatim>\<open>single\<close>. The map of the classifier holds that category under the
  id of the session (for the last session of an id, as each entry overwrites the one
  before), and the step of the loop adds one to the counter of that category alone. A
  session with \<^verbatim>\<open>currentExtension = 2\<close> and a parent is \<^verbatim>\<open>extended\<close>.
\<close>

theorem classifier_priority_chain:
  assumes "s_id s \<notin> s_id ` set ys"
  shows "snd (classify_sessions (xs @ s # ys)) (s_id s) = Some (category_of s) \<and>
         fst (classify_step (types, m) s) = bump (category_of s) types \<and>
         category_of s \<in> {''single'', ''extended'', ''handoff''} \<and>
         category_of (s\<lparr>s_extensionInfo := Some \<lparr>currentExtension = Some 2\<rparr>,
                         s_parentSessionId := Some ''X''\<rparr>) = ''extended''"
proof -
  have "snd (classify_sessions (xs @ s # ys)) (s_id s) = Some (category_of s)"
    unfolding classify_sessions_def snd_foldl_classify_step
    using assms by (simp add: foldl_map_upd_other)
  moreover have "category_of s \<in> {''single'', ''extended'', ''handoff''}"
    using category_of_cases [of s] by auto
  moreover have "category_of (s\<lparr>s_extensionInfo := Some \<lparr>currentExtension = Some 2\<rparr>,
                         s_parentSessionId := Some ''X''\<rparr>) = ''extended''"
    by (simp add: category_of_def)
  ultimately show ?thesis
    by (simp add: classify_step_category)
qed


theorem classifier_priority_chain_witness:
  "''S1'' \<notin> s_id ` set ([] :: SessionStat list) \<and>
   snd (classify_sessions
     [\<lparr>s_id = ''S1'', s_updatedAt = ''2024-01-01T10:15:00Z'', s_tokensIn = Some 10,
       s_tokensOut = Some 20, s_extensionInfo = Some \<lparr>currentExtension = Some 2\<rparr>,
       s_parentSessionId = Some ''X'', s_handoffToSessionId = None\<rparr>]) ''S1'' = Some ''extended'' \<and>
   fst (classify_sessions
     [\<lparr>s_id = ''S1'', s_updatedAt = ''2024-01-01T10:15:00Z'', s_tokensIn = Some 10,
       s_tokensOut = Some 20, s_extensionInfo = Some \<lparr>currentExtension = Some 2\<rparr>,
       s_parentSessionId = Some ''X'', s_handoffToSessionId = None\<rparr>]) =
     \<lparr>single = 0, extended = 1, handoff = 0\<rparr>"
proof -
  let ?s = "\<lparr>s_id = ''S1'', s_updatedAt = ''2024-01-01T10:15:00Z'', s_tokensIn = Some 10,
       s_tokensOut = Some 20, s_extensionInfo = Some \<lparr>currentExtension = Some 2\<rparr>,
       s_parentSessionId = Some ''X'', s_handoffToSessionId = None\<rparr>"
  have h: "s_id ?s \<notin> s_id ` set []"
    by simp
  have c: "category_of ?s = ''extended''"
    by (simp add: category_of_def)
  have f: "fst (classify_sessions [?s]) = \<lparr>single = 0, extended = 1, handoff = 0\<rparr>"
    by (simp add: classify_sessions_def classify_step_def)
  from classifier_priority_chain [OF h, of "[]"] c f show ?thesis
    by simp
qed


text \<open>
  Claim C3. For every list of session statistics, the three emitted counts add up to the
  length of the list, in the classifier and in the response of the handler.
\<close>

theorem session_type_counts_sum:
  "single (fst (classify_sessions session_stats)) + extended (fst (classify_sessions session_stats)) +
   handoff (fst (classify_sessions session_stats)) = length session_stats \<and>
   single (r_sessionTypes (get_errors fromiso db now time_range)) +
   extended (r_sessionTypes (get_errors fromiso db now time_range)) +
   handoff (r_sessionTypes (get_errors fromiso db now time_range)) =
   length (session_stats_query db (start_str_of now time_range))"
  by (simp add: get_errors_def Let_def classify_sessions_def total_foldl_classify_step)


section \<open>Range selectors\<close>

text \<open>
  Claim C10. A range selector other than \<^verbatim>\<open>hour\<close>, \<^verbatim>\<open>day\<close>, \<^verbatim>\<open>week\<close> and \<^verbatim>\<open>month\<close> is
  handled as \<^verbatim>\<open>all\<close> is: the aggregator uses the format \<^verbatim>\<open>%m/%d\<close> and returns what it
  returns for \<^verbatim>\<open>all\<close>, the handler queries from the fixed start 2020-01-01 and gives the
  response it gives for \<^verbatim>\<open>all\<close>.
\<close>

theorem unknown_range_is_all:
  assumes "time_range \<notin> {''hour'', ''day'', ''week'', ''month''}"
  shows "bucket_format_of time_range = ''%m/%d'' \<and>
         bucket_format_of time_range = bucket_format_of ''all'' \<and>
         build_time_series fromiso errs time_range n session_stats =
           build_time_series fromiso errs ''all'' n session_stats \<and>
         query_start now time_range = naive_midnight 2020 1 1 \<and>
         start_str_of now time_range = ''2020-01-01T00:00:00Z'' \<and>
         get_errors fromiso db now time_range = get_errors fromiso db now ''all''"
proof -
  have f: "bucket_format_of time_range = ''%m/%d''" "bucket_format_of ''all'' = ''%m/%d''"
    using assms by (simp_all add: bucket_format_of_def)
  have b: "build_time_series fromiso es time_range k ss = build_time_series fromiso es ''all'' k ss"
    for es k ss
    by (simp add: build_time_series_def collect_buckets_def f)
  have q: "query_start now time_range = naive_midnight 2020 1 1"
    "query_start now ''all'' = naive_midnight 2020 1 1"
    using assms by (simp_all add: query_start_def)
  have i: "isoformat (naive_midnight 2020 1 1) = ''2020-01-01T00:00:00''"
    by (simp add: isoformat_def naive_midnight_def four_digits_def two_digits_def digit_char_def)
  have st: "start_str_of now time_range = ''2020-01-01T00:00:00Z''"
    "start_str_of now ''all'' = ''2020-01-01T00:00:00Z''"
    unfolding start_str_of_def q i by simp_all
  have "get_errors fromiso db now time_range = get_errors fromiso db now ''all''"
    by (simp add: get_errors_def st b)
  with f b q st show ?thesis
    by simp
qed


theorem unknown_range_is_all_witness:
  "''bogus'' \<notin> {''hour'', ''day'', ''week'', ''month''} \<and>
   bucket_format_of ''bogus'' = ''%m/%d'' \<and>
   start_str_of (naive_midnight 2024 1 2) ''bogus'' = ''2020-01-01T00:00:00Z'' \<and>
   build_time_series fromisoformat
     [\<lparr>etype = ''bug'', timestamp = ''2024-01-01T10:15:00Z'', sessionId = ''A'', pairIndex = 0\<rparr>]
     ''bogus'' 1 [] =
   [\<lparr>period = ''01/01'', bugs = 1, failures = 0, errors = 0, avgPerSession = 1,
     tokensIn = 0, tokensOut = 0, avgSessionSizeKB = 0\<rparr>]"
proof -
  have h: "''bogus'' \<notin> {''hour'', ''day'', ''week'', ''month''}"
    by simp
  have a: "build_time_series fromisoformat
     [\<lparr>etype = ''bug'', timestamp = ''2024-01-01T10:15:00Z'', sessionId = ''A'', pairIndex = 0\<rparr>]
     ''all'' 1 [] =
   [\<lparr>period = ''01/01'', bugs = 1, failures = 0, errors = 0, avgPerSession = 1,
     tokensIn = 0, tokensOut = 0, avgSessionSizeKB = 0\<rparr>]"
    by (simp add: build_time_series_eval fromisoformat_eval)
  from unknown_range_is_all [OF h, of fromisoformat
      "[\<lparr>etype = ''bug'', timestamp = ''2024-01-01T10:15:00Z'', sessionId = ''A'', pairIndex = 0\<rparr>]"
      1 "[]" "naive_midnight 2024 1 2"] h a
  show ?thesis
    by simp
qed

section \<open>Running the aggregator again\<close>


end
